theory Spec2Isabelle
  imports Main "HOL-Library.AList"
begin

section \<open>The OCCI storage backends of occi-os: data model\<close>

text \<open>
  The module \<^verbatim>\<open>occi_os_api/backends/storage.py\<close> holds two handler classes,
  \<^verbatim>\<open>StorageBackend\<close> and \<^verbatim>\<open>StorageLinkBackend\<close>. Every method mutates the
  entity it is given, calls the volume and compute API of the platform, and either
  returns nothing or raises. The embedding makes all three visible: a method returns a
  \<open>run\<close>, which holds the exception raised (if any), the entity as the method left it
  (mutations made before a raise stay), and the list of external calls it made, in order.

  An attribute dictionary is an association list from attribute names to string values:
  \<open>map_of d k\<close> is the lookup (\<open>None\<close> when \<^verbatim>\<open>k not in d\<close>), \<open>AList.update k v d\<close>
  is \<^verbatim>\<open>d[k] = v\<close>, and \<open>d \<noteq> []\<close> is \<^verbatim>\<open>len(d) > 0\<close>.
\<close>

type_synonym attrs = "(string \<times> string) list"

text \<open>
  The actions of \<^verbatim>\<open>occi.extensions.infrastructure\<close> that the module names, and
  \<open>OTHER\<close> for any other action object the runtime may pass.
\<close>

datatype action = ONLINE | OFFLINE | BACKUP | SNAPSHOT | RESIZE | OTHER string

text \<open>
  The exceptions of the module: \<^verbatim>\<open>AttributeError\<close> (the runtime answers it as a client
  error), \<^verbatim>\<open>exceptions.HTTPError(code, message)\<close>, the \<^verbatim>\<open>KeyError\<close> of a dictionary
  read of an absent key, the \<^verbatim>\<open>OverflowError\<close> of \<^verbatim>\<open>float(n)\<close> on an integer that no
  float can hold, and \<open>PlatformError\<close> for whatever else a call into the platform raises.
\<close>

datatype exn =
    AttributeError string
  | HTTPError nat string
  | KeyError string
  | OverflowError string
  | PlatformError string

text \<open>
  \<^verbatim>\<open>Entity\<close> of the OCCI core model, with its two subclasses: a \<^verbatim>\<open>Resource\<close> has a
  list of allowed actions, a \<^verbatim>\<open>Link\<close> has a source and a target resource.
\<close>

record entity =
  attributes :: attrs
  entity_identifier :: string

record resource = entity +
  actions :: "action list"

record link = entity +
  source :: resource
  target :: resource

text \<open>The volume record the platform answers with: \<^verbatim>\<open>{id, display_name, size, status}\<close>.\<close>

record volume =
  vol_id :: string
  display_name :: string
  vol_size :: int
  status :: string

text \<open>
  The \<^verbatim>\<open>extras\<close> bundle the runtime passes to every method: the tenant context under
  \<^verbatim>\<open>'nova_ctx'\<close> and the registry under \<^verbatim>\<open>'registry'\<close>. The runtime always supplies
  both, so they are fields. The registry is its \<^verbatim>\<open>get_resource\<close>: a path is found
  (\<open>Inr ()\<close>, the resource itself is never used by this module) or the lookup raises.
\<close>

record extras =
  nova_ctx :: string
  registry :: "string \<Rightarrow> exn + unit"

text \<open>
  What the module takes from outside its own file. The functions of
  \<^verbatim>\<open>occi_os_api.nova_glue.storage\<close> and \<^verbatim>\<open>occi_os_api.nova_glue.vm\<close> are parameters:
  each one answers with a value or raises. So are \<^verbatim>\<open>str(uuid.uuid4())\<close>,
  \<^verbatim>\<open>date.today().isoformat()\<close>, and the two collection paths
  \<^verbatim>\<open>infrastructure.STORAGE.location\<close> and \<^verbatim>\<open>infrastructure.STORAGELINK.location\<close>.
  The conversion \<^verbatim>\<open>str(float(n))\<close> of a volume size is a parameter too, and a partial one:
  \<^verbatim>\<open>float(n)\<close> raises for an integer beyond the range of a float, so \<open>str_float\<close>
  answers with the string or with the exception.
\<close>

record env =
  create_storage :: "string \<Rightarrow> string \<Rightarrow> string \<Rightarrow> exn + volume"
  get_storage :: "string \<Rightarrow> string \<Rightarrow> exn + volume"
  delete_storage_instance :: "string \<Rightarrow> string \<Rightarrow> exn + unit"
  snapshot_storage_instance :: "string \<Rightarrow> string \<Rightarrow> string \<Rightarrow> string \<Rightarrow> exn + unit"
  attach_volume :: "string \<Rightarrow> string \<Rightarrow> string option \<Rightarrow> string \<Rightarrow> exn + string"
  detach_volume :: "string \<Rightarrow> volume \<Rightarrow> string \<Rightarrow> exn + unit"
  uuid4 :: string
  today_isoformat :: string
  str_float :: "int \<Rightarrow> exn + string"
  STORAGE_location :: string
  STORAGELINK_location :: string

text \<open>The external calls a method makes, with their arguments as the source passes them.\<close>

datatype call =
    is_CreateStorage: CreateStorage string string string
  | is_GetStorage: GetStorage string string
  | is_DeleteStorage: DeleteStorage string string
  | is_SnapshotStorage: SnapshotStorage string string string string
  | is_AttachVolume: AttachVolume string string "string option" string
  | is_DetachVolume: DetachVolume string volume string
  | is_GetResource: GetResource string

record 'a run =
  raised :: "exn option"
  obj :: 'a
  calls :: "call list"

text \<open>\<^verbatim>\<open>e.attributes[k] = v\<close>, on a resource or a link.\<close>

definition set_attr :: "string \<Rightarrow> string \<Rightarrow> 'a entity_scheme \<Rightarrow> 'a entity_scheme" where
  "set_attr k v e = e\<lparr>attributes := AList.update k v (attributes e)\<rparr>"

definition returns :: "'a \<Rightarrow> call list \<Rightarrow> 'a run" where
  "returns x cs = \<lparr>raised = None, obj = x, calls = cs\<rparr>"

definition raises :: "exn \<Rightarrow> 'a \<Rightarrow> call list \<Rightarrow> 'a run" where
  "raises e x cs = \<lparr>raised = Some e, obj = x, calls = cs\<rparr>"

section \<open>StorageBackend\<close>

text \<open>
  \<^verbatim>\<open>StorageBackend.create\<close>: the size must be there; the name is the title when the
  key is there and a fresh uuid when it is not; the volume is created and fetched again;
  status \<^verbatim>\<open>'error'\<close> raises before anything is written to the entity.
\<close>

definition StorageBackend_create :: "env \<Rightarrow> resource \<Rightarrow> extras \<Rightarrow> resource run" where
  "StorageBackend_create p entity ex =
    (let context = nova_ctx ex in
     (case map_of (attributes entity) ''occi.storage.size'' of
        None \<Rightarrow> raises (AttributeError ''size attribute not found!'') entity []
      | Some sz \<Rightarrow>
         (let name = (case map_of (attributes entity) ''occi.core.title'' of
                        None \<Rightarrow> uuid4 p
                      | Some title \<Rightarrow> title);
              c1 = [CreateStorage sz name context]
          in (case create_storage p sz name context of
                Inl e \<Rightarrow> raises e entity c1
              | Inr created \<Rightarrow>
                 (let v_id = vol_id created;
                      c2 = c1 @ [GetStorage v_id context]
                  in (case get_storage p v_id context of
                        Inl e \<Rightarrow> raises e entity c2
                      | Inr new_volume \<Rightarrow>
                         (if status new_volume = ''error''
                          then raises (HTTPError 500 ''There was an error creating the volume'')
                                 entity c2
                          else
                            (let e1 = set_attr ''occi.core.id'' v_id entity;
                                 e2 = e1\<lparr>entity_identifier := STORAGE_location p @ v_id\<rparr>;
                                 e3 = (if status new_volume = ''available''
                                       then set_attr ''occi.storage.state'' ''active'' e2
                                       else e2);
                                 e4 = e3\<lparr>actions := [OFFLINE, BACKUP, SNAPSHOT, RESIZE]\<rparr>
                             in returns e4 c2))))))))"

text \<open>
  \<^verbatim>\<open>StorageBackend.retrieve\<close>: reads the id (a \<^verbatim>\<open>KeyError\<close> when absent), fetches the
  volume, writes the title, converts and writes the size, and maps the status to a state
  and a list of actions. When the conversion of the size raises, the title has been
  written, and size, state and actions have not.
\<close>

definition StorageBackend_retrieve :: "env \<Rightarrow> resource \<Rightarrow> extras \<Rightarrow> resource run" where
  "StorageBackend_retrieve p entity ex =
    (case map_of (attributes entity) ''occi.core.id'' of
       None \<Rightarrow> raises (KeyError ''occi.core.id'') entity []
     | Some v_id \<Rightarrow>
        (let c1 = [GetStorage v_id (nova_ctx ex)]
         in (case get_storage p v_id (nova_ctx ex) of
               Inl e \<Rightarrow> raises e entity c1
             | Inr vol \<Rightarrow>
                (let e1 = set_attr ''occi.core.title'' (display_name vol) entity
                 in (case str_float p (vol_size vol) of
                       Inl e \<Rightarrow> raises e e1 c1
                     | Inr size_str \<Rightarrow>
                        (let e2 = set_attr ''occi.storage.size'' size_str e1
                         in (if status vol = ''available'' \<or> status vol = ''in-use''
                             then
                               (let e3 = set_attr ''occi.storage.state'' ''online'' e2;
                                    e4 = e3\<lparr>actions := [OFFLINE, BACKUP, SNAPSHOT, RESIZE]\<rparr>
                                in returns e4 c1)
                             else
                               (let e3 = set_attr ''occi.storage.state'' ''offline'' e2;
                                    e4 = e3\<lparr>actions := [ONLINE]\<rparr>
                                in returns e4 c1))))))))"

text \<open>
  \<^verbatim>\<open>StorageBackend.update\<close>: no platform call. Both inner tests ask whether the
  \<^emph>\<open>title\<close> is in the new attributes; the second then reads the new summary, which is a
  \<^verbatim>\<open>KeyError\<close> when the new attributes have a title and no summary. The title written
  by the first test stays on the old entity.
\<close>

definition StorageBackend_update :: "resource \<Rightarrow> resource \<Rightarrow> extras \<Rightarrow> resource run" where
  "StorageBackend_update old new ex =
    (if attributes new \<noteq> [] then
       (let old1 = (case map_of (attributes new) ''occi.core.title'' of
                      None \<Rightarrow> old
                    | Some title \<Rightarrow>
                       (if 0 < length title then set_attr ''occi.core.title'' title old
                        else old))
        in (case map_of (attributes new) ''occi.core.title'' of
              None \<Rightarrow> returns old1 []
            | Some title \<Rightarrow>
               (case map_of (attributes new) ''occi.core.summary'' of
                  None \<Rightarrow> raises (KeyError ''occi.core.summary'') old1 []
                | Some summary \<Rightarrow>
                   (if 0 < length summary
                    then returns (set_attr ''occi.core.summary'' summary old1) []
                    else returns old1 []))))
     else returns old [])"

text \<open>\<^verbatim>\<open>StorageBackend.delete\<close>: reads the id and asks the platform to delete the volume.\<close>

definition StorageBackend_delete :: "env \<Rightarrow> resource \<Rightarrow> extras \<Rightarrow> resource run" where
  "StorageBackend_delete p entity ex =
    (let context = nova_ctx ex in
     (case map_of (attributes entity) ''occi.core.id'' of
        None \<Rightarrow> raises (KeyError ''occi.core.id'') entity []
      | Some volume_id \<Rightarrow>
         (let c1 = [DeleteStorage volume_id context]
          in (case delete_storage_instance p volume_id context of
                Inl e \<Rightarrow> raises e entity c1
              | Inr u \<Rightarrow> returns entity c1))))"

text \<open>
  \<^verbatim>\<open>StorageBackend.action\<close>: the membership test comes first; online, offline, backup and
  resize do nothing; snapshot reads the id, builds name and description, and calls the
  platform. The \<^verbatim>\<open>attributes\<close> argument of the source is not used by it.
\<close>

definition StorageBackend_action ::
  "env \<Rightarrow> resource \<Rightarrow> action \<Rightarrow> attrs \<Rightarrow> extras \<Rightarrow> resource run" where
  "StorageBackend_action p entity act attrs ex =
    (if act \<notin> set (actions entity)
     then raises (AttributeError ''This action is currently no applicable.'') entity []
     else if act \<in> set [ONLINE, OFFLINE, BACKUP, RESIZE]
     then returns entity []
     else if act = SNAPSHOT
     then
       (case map_of (attributes entity) ''occi.core.id'' of
          None \<Rightarrow> raises (KeyError ''occi.core.id'') entity []
        | Some volume_id \<Rightarrow>
           (let name = volume_id @ today_isoformat p;
                description = (case map_of (attributes entity) ''occi.core.summary'' of
                                 Some summary \<Rightarrow> summary
                               | None \<Rightarrow> ''N/A'');
                c1 = [SnapshotStorage volume_id name description (nova_ctx ex)]
            in (case snapshot_storage_instance p volume_id name description (nova_ctx ex) of
                  Inl e \<Rightarrow> raises e entity c1
                | Inr u \<Rightarrow> returns entity c1)))
     else returns entity [])"

section \<open>StorageLinkBackend\<close>

text \<open>
  \<^verbatim>\<open>StorageLinkBackend.create\<close>: the two ids are read with \<^verbatim>\<open>.get(key, '')\<close>; identifier,
  id and state are written before the registry is asked. Only a \<^verbatim>\<open>KeyError\<close> of the lookup
  is caught (the \<^verbatim>\<open>except\<close> clause names it); the attach call is in the \<^verbatim>\<open>else\<close>
  clause of the \<^verbatim>\<open>try\<close>, so what it raises is not caught.
\<close>

definition StorageLinkBackend_create :: "env \<Rightarrow> link \<Rightarrow> extras \<Rightarrow> link run" where
  "StorageLinkBackend_create p lnk ex =
    (let volume_id = (case map_of (attributes (target lnk)) ''occi.core.id'' of
                        None \<Rightarrow> '''' | Some v \<Rightarrow> v);
         instance_id = (case map_of (attributes (source lnk)) ''occi.core.id'' of
                          None \<Rightarrow> '''' | Some v \<Rightarrow> v);
         link_id = instance_id @ ''_'' @ volume_id;
         l1 = lnk\<lparr>entity_identifier := STORAGELINK_location p @ link_id\<rparr>;
         l2 = set_attr ''occi.core.id'' link_id l1;
         l3 = set_attr ''occi.storagelink.state'' ''active'' l2;
         path = ''/compute/'' @ instance_id;
         c1 = [GetResource path]
     in (case registry ex path of
           Inl e \<Rightarrow>
            (case e of
               KeyError k \<Rightarrow> returns l3 c1
             | _ \<Rightarrow> raises e l3 c1)
         | Inr u \<Rightarrow>
            (let context = nova_ctx ex;
                 device_id = map_of (attributes l3) ''occi.storagelink.deviceid'';
                 c2 = c1 @ [AttachVolume instance_id volume_id device_id context]
             in (case attach_volume p instance_id volume_id device_id context of
                   Inl e \<Rightarrow> raises e l3 c2
                 | Inr device_name \<Rightarrow>
                    returns (set_attr ''occi.storagelink.deviceid'' device_name l3) c2))))"

text \<open>\<^verbatim>\<open>StorageLinkBackend.delete\<close>: both ids are required; the volume is fetched, then detached.\<close>

definition StorageLinkBackend_delete :: "env \<Rightarrow> link \<Rightarrow> extras \<Rightarrow> link run" where
  "StorageLinkBackend_delete p lnk ex =
    (case map_of (attributes (source lnk)) ''occi.core.id'' of
       None \<Rightarrow> raises (KeyError ''occi.core.id'') lnk []
     | Some instance_id \<Rightarrow>
        (case map_of (attributes (target lnk)) ''occi.core.id'' of
           None \<Rightarrow> raises (KeyError ''occi.core.id'') lnk []
         | Some volume_id \<Rightarrow>
            (let c1 = [GetStorage volume_id (nova_ctx ex)]
             in (case get_storage p volume_id (nova_ctx ex) of
                   Inl e \<Rightarrow> raises e lnk c1
                 | Inr vol \<Rightarrow>
                    (let c2 = c1 @ [DetachVolume instance_id vol (nova_ctx ex)]
                     in (case detach_volume p instance_id vol (nova_ctx ex) of
                           Inl e \<Rightarrow> raises e lnk c2
                         | Inr u \<Rightarrow> returns lnk c2))))))"

section \<open>Concrete inputs\<close>

text \<open>
  A platform that creates volume \<open>v1\<close>, reports the given status when a volume is
  fetched, and attaches at \<open>/dev/vdb\<close>; its volumes have size 1. Of the conversion
  \<^verbatim>\<open>str(float(n))\<close> it has the one size it reports, and it answers every other size with
  the exception, so that no run on it shows a string the conversion would not give. The
  two collection paths are those of the OCCI infrastructure extension.
\<close>

definition platform_with_status :: "string \<Rightarrow> env" where
  "platform_with_status st =
    \<lparr>create_storage = (\<lambda>sz name ctx.
        Inr \<lparr>vol_id = ''v1'', display_name = name, vol_size = 1, status = ''creating''\<rparr>),
     get_storage = (\<lambda>i ctx.
        Inr \<lparr>vol_id = i, display_name = ''data'', vol_size = 1, status = st\<rparr>),
     delete_storage_instance = (\<lambda>i ctx. Inr ()),
     snapshot_storage_instance = (\<lambda>i name description ctx. Inr ()),
     attach_volume = (\<lambda>i v d ctx. Inr ''/dev/vdb''),
     detach_volume = (\<lambda>i v ctx. Inr ()),
     uuid4 = ''16fd2706-8baf-433b-82eb-8c7fada847da'',
     today_isoformat = ''2012-06-01'',
     str_float = (\<lambda>n. if n = 1 then Inr ''1.0''
                      else Inl (OverflowError ''long int too large to convert to float'')),
     STORAGE_location = ''/storage/'',
     STORAGELINK_location = ''/storage/link/''\<rparr>"

text \<open>Extras whose registry knows no resource, and extras whose registry knows them all.\<close>

definition extras_unregistered :: extras where
  "extras_unregistered = \<lparr>nova_ctx = ''ctx'', registry = (\<lambda>path. Inl (KeyError path))\<rparr>"

definition extras_registered :: extras where
  "extras_registered = \<lparr>nova_ctx = ''ctx'', registry = (\<lambda>path. Inr ())\<rparr>"

definition resource_of :: "attrs \<Rightarrow> action list \<Rightarrow> resource" where
  "resource_of d acts = \<lparr>attributes = d, entity_identifier = '''', actions = acts\<rparr>"

definition link_of :: "attrs \<Rightarrow> resource \<Rightarrow> resource \<Rightarrow> link" where
  "link_of d s t = \<lparr>attributes = d, entity_identifier = '''', source = s, target = t\<rparr>"

section \<open>Properties\<close>

subsection \<open>Reading an attribute after a write\<close>

lemma map_of_set_attr:
  "map_of (attributes (set_attr k v e)) k' =
     (if k' = k then Some v else map_of (attributes e) k')"
  by (simp add: set_attr_def update_conv')

lemma set_attr_other_fields:
  "entity_identifier (set_attr k v e) = entity_identifier e"
  "entity.more (set_attr k v e) = entity.more e"
  by (simp_all add: set_attr_def)

subsection \<open>StorageBackend.create\<close>

text \<open>
  C5. A create call on an entity whose attributes have no \<^verbatim>\<open>occi.storage.size\<close> raises
  \<^verbatim>\<open>AttributeError\<close>, makes no external call, and leaves the entity as it was.
\<close>

theorem create_without_size:
  assumes "map_of (attributes entity) ''occi.storage.size'' = None"
  shows "StorageBackend_create p entity ex =
           \<lparr>raised = Some (AttributeError ''size attribute not found!''),
            obj = entity, calls = []\<rparr>"
  using assms by (simp add: StorageBackend_create_def raises_def)

theorem create_without_size_witness:
  "map_of (attributes (resource_of [(''occi.core.title'', ''disk'')] []))
     ''occi.storage.size'' = None
   \<and> StorageBackend_create (platform_with_status ''available'')
         (resource_of [(''occi.core.title'', ''disk'')] []) extras_unregistered =
       \<lparr>raised = Some (AttributeError ''size attribute not found!''),
        obj = resource_of [(''occi.core.title'', ''disk'')] [], calls = []\<rparr>"
  using create_without_size [of "resource_of [(''occi.core.title'', ''disk'')] []"
          "platform_with_status ''available''" extras_unregistered]
  by (simp add: resource_of_def)

text \<open>
  What create does once the size is there and both platform calls have answered: the
  common part of the theorems on the error status, the volume name and the other statuses.
\<close>

lemma create_after_fetch:
  assumes "map_of (attributes entity) ''occi.storage.size'' = Some sz"
    and "name = (case map_of (attributes entity) ''occi.core.title'' of
                   None \<Rightarrow> uuid4 p | Some title \<Rightarrow> title)"
    and "create_storage p sz name (nova_ctx ex) = Inr created"
    and "get_storage p (vol_id created) (nova_ctx ex) = Inr new_volume"
  shows "StorageBackend_create p entity ex =
     (let cs = [CreateStorage sz name (nova_ctx ex), GetStorage (vol_id created) (nova_ctx ex)]
      in if status new_volume = ''error''
         then raises (HTTPError 500 ''There was an error creating the volume'') entity cs
         else returns
           ((if status new_volume = ''available''
             then set_attr ''occi.storage.state'' ''active''
                    ((set_attr ''occi.core.id'' (vol_id created) entity)
                       \<lparr>entity_identifier := STORAGE_location p @ vol_id created\<rparr>)
             else (set_attr ''occi.core.id'' (vol_id created) entity)
                       \<lparr>entity_identifier := STORAGE_location p @ vol_id created\<rparr>)
            \<lparr>actions := [OFFLINE, BACKUP, SNAPSHOT, RESIZE]\<rparr>) cs)"
  using assms by (simp add: StorageBackend_create_def Let_def)

text \<open>
  C1, as the code has it. When the volume fetched again has status \<^verbatim>\<open>'error'\<close>, create
  raises \<^verbatim>\<open>HTTPError(500, ...)\<close> and the entity is exactly as it was before the call: the
  status is tested before \<^verbatim>\<open>occi.core.id\<close> is written, so the id is not on the entity
  unless it already was.
\<close>

theorem create_error_status:
  assumes "map_of (attributes entity) ''occi.storage.size'' = Some sz"
    and "create_storage p sz
           (case map_of (attributes entity) ''occi.core.title'' of
              None \<Rightarrow> uuid4 p | Some title \<Rightarrow> title) (nova_ctx ex) = Inr created"
    and "get_storage p (vol_id created) (nova_ctx ex) = Inr new_volume"
    and "status new_volume = ''error''"
  shows "raised (StorageBackend_create p entity ex) =
           Some (HTTPError 500 ''There was an error creating the volume'')
       \<and> obj (StorageBackend_create p entity ex) = entity"
  using create_after_fetch [OF assms(1) refl assms(2) assms(3)] assms(4)
  by (simp add: raises_def)

theorem create_error_status_witness:
  "map_of (attributes (resource_of [(''occi.storage.size'', ''1'')] []))
     ''occi.storage.size'' = Some ''1''
   \<and> create_storage (platform_with_status ''error'') ''1''
       (uuid4 (platform_with_status ''error'')) ''ctx'' =
       Inr \<lparr>vol_id = ''v1'', display_name = uuid4 (platform_with_status ''error''),
            vol_size = 1, status = ''creating''\<rparr>
   \<and> get_storage (platform_with_status ''error'') ''v1'' ''ctx'' =
       Inr \<lparr>vol_id = ''v1'', display_name = ''data'', vol_size = 1, status = ''error''\<rparr>
   \<and> raised (StorageBackend_create (platform_with_status ''error'')
         (resource_of [(''occi.storage.size'', ''1'')] []) extras_unregistered) =
       Some (HTTPError 500 ''There was an error creating the volume'')
   \<and> obj (StorageBackend_create (platform_with_status ''error'')
         (resource_of [(''occi.storage.size'', ''1'')] []) extras_unregistered) =
       resource_of [(''occi.storage.size'', ''1'')] []"
  using create_error_status [of "resource_of [(''occi.storage.size'', ''1'')] []" "''1''"
          "platform_with_status ''error''" extras_unregistered
          "\<lparr>vol_id = ''v1'', display_name = uuid4 (platform_with_status ''error''),
            vol_size = 1, status = ''creating''\<rparr>"
          "\<lparr>vol_id = ''v1'', display_name = ''data'', vol_size = 1, status = ''error''\<rparr>"]
  by (simp add: resource_of_def platform_with_status_def extras_unregistered_def)

text \<open>
  C1, as the claim states it, fails: the platform assigns \<open>v1\<close>, the volume fetched again
  has status \<^verbatim>\<open>'error'\<close>, create raises the HTTP 500 error, and the entity has no
  \<^verbatim>\<open>occi.core.id\<close> at all.
\<close>

theorem create_error_status_id_counterexample:
  "raised (StorageBackend_create (platform_with_status ''error'')
      (resource_of [(''occi.storage.size'', ''1'')] []) extras_unregistered) =
     Some (HTTPError 500 ''There was an error creating the volume'')
   \<and> calls (StorageBackend_create (platform_with_status ''error'')
      (resource_of [(''occi.storage.size'', ''1'')] []) extras_unregistered) =
     [CreateStorage ''1'' ''16fd2706-8baf-433b-82eb-8c7fada847da'' ''ctx'',
      GetStorage ''v1'' ''ctx'']
   \<and> map_of (attributes (obj (StorageBackend_create (platform_with_status ''error'')
      (resource_of [(''occi.storage.size'', ''1'')] []) extras_unregistered)))
        ''occi.core.id'' \<noteq> Some ''v1''"
  by (simp add: StorageBackend_create_def platform_with_status_def resource_of_def
        extras_unregistered_def raises_def Let_def)

text \<open>
  C4, as the code has it. The name passed to the platform's create call is the title
  whenever the key \<^verbatim>\<open>occi.core.title\<close> is in the attributes, empty or not, and the fresh
  uuid when the key is absent; create makes exactly one such call.
\<close>

theorem create_volume_name:
  assumes "map_of (attributes entity) ''occi.storage.size'' = Some sz"
  shows "filter is_CreateStorage (calls (StorageBackend_create p entity ex)) =
           [CreateStorage sz
              (case map_of (attributes entity) ''occi.core.title'' of
                 None \<Rightarrow> uuid4 p | Some title \<Rightarrow> title)
              (nova_ctx ex)]"
  using assms
  by (simp add: StorageBackend_create_def Let_def raises_def returns_def split: sum.splits)

theorem create_volume_name_witness:
  "map_of (attributes (resource_of [(''occi.storage.size'', ''1'')] []))
     ''occi.storage.size'' = Some ''1''
   \<and> map_of (attributes (resource_of
         [(''occi.storage.size'', ''2''), (''occi.core.title'', ''disk'')] []))
     ''occi.storage.size'' = Some ''2''
   \<and> filter is_CreateStorage (calls (StorageBackend_create (platform_with_status ''available'')
         (resource_of [(''occi.storage.size'', ''1'')] []) extras_unregistered)) =
       [CreateStorage ''1'' ''16fd2706-8baf-433b-82eb-8c7fada847da'' ''ctx'']
   \<and> filter is_CreateStorage (calls (StorageBackend_create (platform_with_status ''available'')
         (resource_of [(''occi.storage.size'', ''2''), (''occi.core.title'', ''disk'')] [])
         extras_unregistered)) =
       [CreateStorage ''2'' ''disk'' ''ctx'']"
  using create_volume_name [of "resource_of [(''occi.storage.size'', ''1'')] []" "''1''"
          "platform_with_status ''available''" extras_unregistered]
        create_volume_name [of "resource_of
            [(''occi.storage.size'', ''2''), (''occi.core.title'', ''disk'')] []" "''2''"
          "platform_with_status ''available''" extras_unregistered]
  by (simp add: resource_of_def platform_with_status_def extras_unregistered_def)

text \<open>
  C4, as the claim states it, fails: with the title present and empty, the name passed
  to the platform is the empty title, not the uuid.
\<close>

theorem create_empty_title_counterexample:
  "map_of (attributes (resource_of
       [(''occi.storage.size'', ''1''), (''occi.core.title'', '''')] []))
     ''occi.core.title'' = Some ''''
   \<and> calls (StorageBackend_create (platform_with_status ''available'')
       (resource_of [(''occi.storage.size'', ''1''), (''occi.core.title'', '''')] [])
       extras_unregistered) =
     [CreateStorage ''1'' '''' ''ctx'', GetStorage ''v1'' ''ctx'']
   \<and> uuid4 (platform_with_status ''available'') \<noteq> ''''"
  by (simp add: StorageBackend_create_def platform_with_status_def resource_of_def
        extras_unregistered_def returns_def Let_def)

text \<open>
  C10. When the volume fetched again has a status that is neither \<^verbatim>\<open>'error'\<close> nor
  \<^verbatim>\<open>'available'\<close>, create returns normally; it has written \<^verbatim>\<open>occi.core.id\<close> and nothing
  else to the attributes, so \<^verbatim>\<open>occi.storage.state\<close> reads as before; the identifier is
  the storage collection path followed by the id, and the actions are offline, backup,
  snapshot, resize.
\<close>

theorem create_other_status:
  assumes "map_of (attributes entity) ''occi.storage.size'' = Some sz"
    and "create_storage p sz
           (case map_of (attributes entity) ''occi.core.title'' of
              None \<Rightarrow> uuid4 p | Some title \<Rightarrow> title) (nova_ctx ex) = Inr created"
    and "get_storage p (vol_id created) (nova_ctx ex) = Inr new_volume"
    and "status new_volume \<noteq> ''error''"
    and "status new_volume \<noteq> ''available''"
  shows "raised (StorageBackend_create p entity ex) = None
       \<and> attributes (obj (StorageBackend_create p entity ex)) =
           AList.update ''occi.core.id'' (vol_id created) (attributes entity)
       \<and> map_of (attributes (obj (StorageBackend_create p entity ex))) ''occi.core.id'' =
           Some (vol_id created)
       \<and> map_of (attributes (obj (StorageBackend_create p entity ex))) ''occi.storage.state'' =
           map_of (attributes entity) ''occi.storage.state''
       \<and> entity_identifier (obj (StorageBackend_create p entity ex)) =
           STORAGE_location p @ vol_id created
       \<and> actions (obj (StorageBackend_create p entity ex)) =
           [OFFLINE, BACKUP, SNAPSHOT, RESIZE]"
  using create_after_fetch [OF assms(1) refl assms(2) assms(3)] assms(4) assms(5)
  by (simp add: returns_def set_attr_def update_conv')

theorem create_other_status_witness:
  "map_of (attributes (resource_of
       [(''occi.storage.size'', ''1''), (''occi.storage.state'', ''offline'')] []))
     ''occi.storage.size'' = Some ''1''
   \<and> ''creating'' \<noteq> ''error'' \<and> ''creating'' \<noteq> ''available''
   \<and> StorageBackend_create (platform_with_status ''creating'')
       (resource_of [(''occi.storage.size'', ''1''), (''occi.storage.state'', ''offline'')] [])
       extras_unregistered =
     \<lparr>raised = None,
      obj = \<lparr>attributes = [(''occi.storage.size'', ''1''), (''occi.storage.state'', ''offline''),
                             (''occi.core.id'', ''v1'')],
             entity_identifier = ''/storage/v1'',
             actions = [OFFLINE, BACKUP, SNAPSHOT, RESIZE]\<rparr>,
      calls = [CreateStorage ''1'' ''16fd2706-8baf-433b-82eb-8c7fada847da'' ''ctx'',
               GetStorage ''v1'' ''ctx'']\<rparr>"
proof -
  let ?p = "platform_with_status ''creating''"
  let ?e = "resource_of [(''occi.storage.size'', ''1''), (''occi.storage.state'', ''offline'')] []"
  let ?r = "StorageBackend_create ?p ?e extras_unregistered"
  have size: "map_of (attributes ?e) ''occi.storage.size'' = Some ''1''"
    by (simp add: resource_of_def)
  have created: "create_storage ?p ''1''
      (case map_of (attributes ?e) ''occi.core.title'' of
         None \<Rightarrow> uuid4 ?p | Some title \<Rightarrow> title) (nova_ctx extras_unregistered) =
      Inr \<lparr>vol_id = ''v1'', display_name = uuid4 ?p, vol_size = 1, status = ''creating''\<rparr>"
    by (simp add: resource_of_def platform_with_status_def)
  have fetched: "get_storage ?p
      (vol_id \<lparr>vol_id = ''v1'', display_name = uuid4 ?p, vol_size = 1, status = ''creating''\<rparr>)
      (nova_ctx extras_unregistered) =
      Inr \<lparr>vol_id = ''v1'', display_name = ''data'', vol_size = 1, status = ''creating''\<rparr>"
    by (simp add: platform_with_status_def)
  have fields: "raised ?r = None
       \<and> attributes (obj ?r) = [(''occi.storage.size'', ''1''),
            (''occi.storage.state'', ''offline''), (''occi.core.id'', ''v1'')]
       \<and> entity_identifier (obj ?r) = ''/storage/v1''
       \<and> actions (obj ?r) = [OFFLINE, BACKUP, SNAPSHOT, RESIZE]"
    using create_other_status [OF size created fetched]
    by (simp add: resource_of_def platform_with_status_def)
  have cs: "calls ?r = [CreateStorage ''1'' ''16fd2706-8baf-433b-82eb-8c7fada847da'' ''ctx'',
               GetStorage ''v1'' ''ctx'']"
    by (simp add: StorageBackend_create_def platform_with_status_def resource_of_def
          extras_unregistered_def returns_def Let_def)
  show ?thesis using size fields cs by (cases ?r) simp
qed

subsection \<open>StorageBackend.retrieve\<close>

text \<open>
  Retrieve raises before the status is looked at when the size of the volume cannot be
  converted: the title is on the entity, and size, state and actions are as they were.
\<close>

lemma retrieve_size_not_convertible:
  assumes "map_of (attributes entity) ''occi.core.id'' = Some v_id"
    and "get_storage p v_id (nova_ctx ex) = Inr vol"
    and "str_float p (vol_size vol) = Inl e"
  shows "StorageBackend_retrieve p entity ex =
           raises e (set_attr ''occi.core.title'' (display_name vol) entity)
             [GetStorage v_id (nova_ctx ex)]"
  using assms by (simp add: StorageBackend_retrieve_def Let_def)

text \<open>
  C3. Whenever retrieve gets a volume from the platform and has converted its size, the
  state and the allowed actions it leaves on the entity are determined by the reported
  status alone: online with offline, backup, snapshot, resize for \<^verbatim>\<open>'available'\<close> and
  \<^verbatim>\<open>'in-use'\<close>; offline with online only for every other status. Nothing of the entity
  as it was before the call enters the right-hand sides.
\<close>

theorem retrieve_state_of_status:
  assumes "map_of (attributes entity) ''occi.core.id'' = Some v_id"
    and "get_storage p v_id (nova_ctx ex) = Inr vol"
    and "str_float p (vol_size vol) = Inr size_str"
  shows "raised (StorageBackend_retrieve p entity ex) = None
       \<and> map_of (attributes (obj (StorageBackend_retrieve p entity ex))) ''occi.storage.state'' =
           Some (if status vol = ''available'' \<or> status vol = ''in-use''
                 then ''online'' else ''offline'')
       \<and> actions (obj (StorageBackend_retrieve p entity ex)) =
           (if status vol = ''available'' \<or> status vol = ''in-use''
            then [OFFLINE, BACKUP, SNAPSHOT, RESIZE] else [ONLINE])"
  using assms
  by (simp add: StorageBackend_retrieve_def Let_def returns_def map_of_set_attr)

theorem retrieve_state_of_status_witness:
  "map_of (attributes (resource_of
       [(''occi.core.id'', ''v1''), (''occi.storage.state'', ''offline'')] [ONLINE]))
     ''occi.core.id'' = Some ''v1''
   \<and> get_storage (platform_with_status ''in-use'') ''v1'' ''ctx'' =
       Inr \<lparr>vol_id = ''v1'', display_name = ''data'', vol_size = 1, status = ''in-use''\<rparr>
   \<and> str_float (platform_with_status ''in-use'') 1 = Inr ''1.0''
   \<and> raised (StorageBackend_retrieve (platform_with_status ''in-use'')
       (resource_of [(''occi.core.id'', ''v1''), (''occi.storage.state'', ''offline'')] [ONLINE])
       extras_unregistered) = None
   \<and> map_of (attributes (obj (StorageBackend_retrieve (platform_with_status ''in-use'')
       (resource_of [(''occi.core.id'', ''v1''), (''occi.storage.state'', ''offline'')] [ONLINE])
       extras_unregistered))) ''occi.storage.state'' = Some ''online''
   \<and> actions (obj (StorageBackend_retrieve (platform_with_status ''in-use'')
       (resource_of [(''occi.core.id'', ''v1''), (''occi.storage.state'', ''offline'')] [ONLINE])
       extras_unregistered)) = [OFFLINE, BACKUP, SNAPSHOT, RESIZE]
   \<and> map_of (attributes (obj (StorageBackend_retrieve (platform_with_status ''deleting'')
       (resource_of [(''occi.core.id'', ''v1''), (''occi.storage.state'', ''online'')]
          [OFFLINE, BACKUP, SNAPSHOT, RESIZE])
       extras_unregistered))) ''occi.storage.state'' = Some ''offline''
   \<and> actions (obj (StorageBackend_retrieve (platform_with_status ''deleting'')
       (resource_of [(''occi.core.id'', ''v1''), (''occi.storage.state'', ''online'')]
          [OFFLINE, BACKUP, SNAPSHOT, RESIZE])
       extras_unregistered)) = [ONLINE]"
  using retrieve_state_of_status [of
          "resource_of [(''occi.core.id'', ''v1''), (''occi.storage.state'', ''offline'')] [ONLINE]"
          "''v1''" "platform_with_status ''in-use''" extras_unregistered
          "\<lparr>vol_id = ''v1'', display_name = ''data'', vol_size = 1, status = ''in-use''\<rparr>"
          "''1.0''"]
        retrieve_state_of_status [of
          "resource_of [(''occi.core.id'', ''v1''), (''occi.storage.state'', ''online'')]
             [OFFLINE, BACKUP, SNAPSHOT, RESIZE]"
          "''v1''" "platform_with_status ''deleting''" extras_unregistered
          "\<lparr>vol_id = ''v1'', display_name = ''data'', vol_size = 1, status = ''deleting''\<rparr>"
          "''1.0''"]
  by (simp add: resource_of_def platform_with_status_def extras_unregistered_def)

text \<open>
  The three conditions of the theorem above are no restriction on the runs that leave a
  result: every run of retrieve that returns normally has read an id, got a volume and
  converted its size, and its state and actions are those of that volume's status.
\<close>

lemma retrieve_returned_state:
  assumes "raised (StorageBackend_retrieve p entity ex) = None"
  shows "\<exists>v_id vol size_str.
           map_of (attributes entity) ''occi.core.id'' = Some v_id
         \<and> get_storage p v_id (nova_ctx ex) = Inr vol
         \<and> str_float p (vol_size vol) = Inr size_str
         \<and> map_of (attributes (obj (StorageBackend_retrieve p entity ex)))
               ''occi.storage.state'' =
             Some (if status vol = ''available'' \<or> status vol = ''in-use''
                   then ''online'' else ''offline'')
         \<and> actions (obj (StorageBackend_retrieve p entity ex)) =
             (if status vol = ''available'' \<or> status vol = ''in-use''
              then [OFFLINE, BACKUP, SNAPSHOT, RESIZE] else [ONLINE])"
proof (cases "map_of (attributes entity) ''occi.core.id''")
  case None
  with assms show ?thesis
    by (simp add: StorageBackend_retrieve_def raises_def)
next
  case (Some v_id)
  show ?thesis
  proof (cases "get_storage p v_id (nova_ctx ex)")
    case (Inl e)
    with Some assms show ?thesis
      by (simp add: StorageBackend_retrieve_def Let_def raises_def)
  next
    case (Inr vol)
    show ?thesis
    proof (cases "str_float p (vol_size vol)")
      case (Inl e)
      with Some Inr assms show ?thesis
        by (simp add: StorageBackend_retrieve_def Let_def raises_def)
    next
      case size: (Inr size_str)
      with Some Inr show ?thesis
        by (simp add: StorageBackend_retrieve_def Let_def returns_def map_of_set_attr)
    qed
  qed
qed

subsection \<open>StorageBackend.update\<close>

text \<open>
  C2. With old attributes title \<open>A\<close> and summary \<open>S\<close>, and new attributes holding
  only the title \<open>B\<close>, update does not complete normally: it writes the title and then
  raises \<^verbatim>\<open>KeyError\<close>, because the test that guards the read of the new summary asks for
  the title.
\<close>

theorem update_title_only_raises:
  "StorageBackend_update
     (resource_of [(''occi.core.title'', ''A''), (''occi.core.summary'', ''S'')] [])
     (resource_of [(''occi.core.title'', ''B'')] [])
     extras_unregistered =
   \<lparr>raised = Some (KeyError ''occi.core.summary''),
    obj = resource_of [(''occi.core.title'', ''B''), (''occi.core.summary'', ''S'')] [],
    calls = []\<rparr>"
  by (simp add: StorageBackend_update_def resource_of_def set_attr_def raises_def)

subsection \<open>StorageBackend.action\<close>

text \<open>
  C6. An action that is not in the entity's list of allowed actions raises
  \<^verbatim>\<open>AttributeError\<close>; no external call has been made and the entity is as it was.
\<close>

theorem action_not_allowed:
  assumes "act \<notin> set (actions entity)"
  shows "StorageBackend_action p entity act attrs ex =
           \<lparr>raised = Some (AttributeError ''This action is currently no applicable.''),
            obj = entity, calls = []\<rparr>"
  using assms by (simp add: StorageBackend_action_def raises_def)

theorem action_not_allowed_witness:
  "SNAPSHOT \<notin> set (actions (resource_of [(''occi.core.id'', ''v1'')] [ONLINE]))
   \<and> StorageBackend_action (platform_with_status ''error'')
       (resource_of [(''occi.core.id'', ''v1'')] [ONLINE]) SNAPSHOT [] extras_unregistered =
     \<lparr>raised = Some (AttributeError ''This action is currently no applicable.''),
      obj = resource_of [(''occi.core.id'', ''v1'')] [ONLINE], calls = []\<rparr>"
  using action_not_allowed [of SNAPSHOT "resource_of [(''occi.core.id'', ''v1'')] [ONLINE]"
          "platform_with_status ''error''" "[]" extras_unregistered]
  by (simp add: resource_of_def)

text \<open>
  Every entity that create or retrieve has returned normally on, and so every entity the
  backend itself has declared snapshot allowed on, has an \<^verbatim>\<open>occi.core.id\<close>: both set
  the allowed actions only on a path that has written or read the id.
\<close>

lemma create_returned_has_id:
  assumes "raised (StorageBackend_create p entity ex) = None"
  shows "map_of (attributes (obj (StorageBackend_create p entity ex))) ''occi.core.id'' \<noteq> None"
  using assms
  by (auto simp add: StorageBackend_create_def Let_def raises_def returns_def map_of_set_attr
        split: option.splits sum.splits if_splits)

lemma retrieve_returned_has_id:
  assumes "raised (StorageBackend_retrieve p entity ex) = None"
  shows "map_of (attributes (obj (StorageBackend_retrieve p entity ex))) ''occi.core.id'' \<noteq> None"
  using assms
  by (auto simp add: StorageBackend_retrieve_def Let_def raises_def returns_def map_of_set_attr
        split: option.splits sum.splits if_splits)

text \<open>
  C7. When snapshot is allowed on an entity with volume id \<open>volume_id\<close>, the action makes
  exactly one external call, the platform's snapshot call, with the volume id, the name
  \<open>volume_id\<close> followed by today's date in ISO format, the entity's summary as
  description when it has one and \<^verbatim>\<open>'N/A'\<close> when it has none, and the context.
\<close>

theorem action_snapshot_call:
  assumes "SNAPSHOT \<in> set (actions entity)"
    and "map_of (attributes entity) ''occi.core.id'' = Some volume_id"
  shows "calls (StorageBackend_action p entity SNAPSHOT attrs ex) =
           [SnapshotStorage volume_id (volume_id @ today_isoformat p)
              (case map_of (attributes entity) ''occi.core.summary'' of
                 Some summary \<Rightarrow> summary | None \<Rightarrow> ''N/A'')
              (nova_ctx ex)]"
  using assms
  by (simp add: StorageBackend_action_def Let_def raises_def returns_def split: sum.splits)

theorem action_snapshot_call_witness:
  "SNAPSHOT \<in> set (actions (resource_of [(''occi.core.id'', ''v1'')]
       [OFFLINE, BACKUP, SNAPSHOT, RESIZE]))
   \<and> map_of (attributes (resource_of [(''occi.core.id'', ''v1'')]
       [OFFLINE, BACKUP, SNAPSHOT, RESIZE])) ''occi.core.id'' = Some ''v1''
   \<and> calls (StorageBackend_action (platform_with_status ''available'')
       (resource_of [(''occi.core.id'', ''v1'')] [OFFLINE, BACKUP, SNAPSHOT, RESIZE])
       SNAPSHOT [] extras_unregistered) =
     [SnapshotStorage ''v1'' ''v12012-06-01'' ''N/A'' ''ctx'']
   \<and> calls (StorageBackend_action (platform_with_status ''available'')
       (resource_of [(''occi.core.id'', ''v1''), (''occi.core.summary'', ''nightly'')]
          [OFFLINE, BACKUP, SNAPSHOT, RESIZE])
       SNAPSHOT [] extras_unregistered) =
     [SnapshotStorage ''v1'' ''v12012-06-01'' ''nightly'' ''ctx'']"
  using action_snapshot_call [of
          "resource_of [(''occi.core.id'', ''v1'')] [OFFLINE, BACKUP, SNAPSHOT, RESIZE]"
          "''v1''" "platform_with_status ''available''" "[]" extras_unregistered]
        action_snapshot_call [of
          "resource_of [(''occi.core.id'', ''v1''), (''occi.core.summary'', ''nightly'')]
             [OFFLINE, BACKUP, SNAPSHOT, RESIZE]"
          "''v1''" "platform_with_status ''available''" "[]" extras_unregistered]
  by (simp add: resource_of_def platform_with_status_def extras_unregistered_def)

subsection \<open>StorageLinkBackend.create\<close>

text \<open>
  What link creation writes before it asks the registry, for any two endpoints: the
  joined id, the identifier and the state.
\<close>

lemma link_create_unregistered_general:
  assumes "registry ex (''/compute/'' @ instance_id) = Inl (KeyError k)"
    and "instance_id = (case map_of (attributes (source lnk)) ''occi.core.id'' of
                          None \<Rightarrow> '''' | Some v \<Rightarrow> v)"
    and "volume_id = (case map_of (attributes (target lnk)) ''occi.core.id'' of
                        None \<Rightarrow> '''' | Some v \<Rightarrow> v)"
  shows "StorageLinkBackend_create p lnk ex =
           returns
             (set_attr ''occi.storagelink.state'' ''active''
               (set_attr ''occi.core.id'' (instance_id @ ''_'' @ volume_id)
                 (lnk\<lparr>entity_identifier :=
                        STORAGELINK_location p @ instance_id @ ''_'' @ volume_id\<rparr>)))
             [GetResource (''/compute/'' @ instance_id)]"
  using assms by (simp add: StorageLinkBackend_create_def Let_def)

text \<open>
  C8. With source id \<open>i1\<close>, target id \<open>v1\<close> and a registry lookup that raises
  \<^verbatim>\<open>KeyError\<close>, link creation returns normally: the link's \<^verbatim>\<open>occi.core.id\<close> is
  \<open>i1_v1\<close>, its identifier is the storagelink collection path followed by \<open>i1_v1\<close>, its
  state is \<open>active\<close>, and the only external call is the registry lookup, so no attach
  call has been made.
\<close>

theorem link_create_unregistered:
  assumes "map_of (attributes (source lnk)) ''occi.core.id'' = Some ''i1''"
    and "map_of (attributes (target lnk)) ''occi.core.id'' = Some ''v1''"
    and "registry ex ''/compute/i1'' = Inl (KeyError k)"
  shows "raised (StorageLinkBackend_create p lnk ex) = None
       \<and> map_of (attributes (obj (StorageLinkBackend_create p lnk ex))) ''occi.core.id'' =
           Some ''i1_v1''
       \<and> entity_identifier (obj (StorageLinkBackend_create p lnk ex)) =
           STORAGELINK_location p @ ''i1_v1''
       \<and> map_of (attributes (obj (StorageLinkBackend_create p lnk ex)))
           ''occi.storagelink.state'' = Some ''active''
       \<and> calls (StorageLinkBackend_create p lnk ex) = [GetResource ''/compute/i1'']
       \<and> filter is_AttachVolume (calls (StorageLinkBackend_create p lnk ex)) = []"
proof -
  have "registry ex (''/compute/'' @ ''i1'') = Inl (KeyError k)"
    using assms(3) by simp
  from link_create_unregistered_general [OF this, of lnk "''v1''" p]
  show ?thesis
    using assms(1) assms(2)
    by (simp add: returns_def map_of_set_attr set_attr_other_fields)
qed

theorem link_create_unregistered_witness:
  "map_of (attributes (source (link_of [] (resource_of [(''occi.core.id'', ''i1'')] [])
       (resource_of [(''occi.core.id'', ''v1'')] [])))) ''occi.core.id'' = Some ''i1''
   \<and> map_of (attributes (target (link_of [] (resource_of [(''occi.core.id'', ''i1'')] [])
       (resource_of [(''occi.core.id'', ''v1'')] [])))) ''occi.core.id'' = Some ''v1''
   \<and> registry extras_unregistered ''/compute/i1'' = Inl (KeyError ''/compute/i1'')
   \<and> StorageLinkBackend_create (platform_with_status ''available'')
       (link_of [] (resource_of [(''occi.core.id'', ''i1'')] [])
          (resource_of [(''occi.core.id'', ''v1'')] [])) extras_unregistered =
     \<lparr>raised = None,
      obj = link_of [(''occi.core.id'', ''i1_v1''), (''occi.storagelink.state'', ''active'')]
              (resource_of [(''occi.core.id'', ''i1'')] [])
              (resource_of [(''occi.core.id'', ''v1'')] [])
              \<lparr>entity_identifier := ''/storage/link/i1_v1''\<rparr>,
      calls = [GetResource ''/compute/i1'']\<rparr>"
proof -
  let ?l = "link_of [] (resource_of [(''occi.core.id'', ''i1'')] [])
              (resource_of [(''occi.core.id'', ''v1'')] [])"
  let ?r = "StorageLinkBackend_create (platform_with_status ''available'') ?l extras_unregistered"
  have src: "map_of (attributes (source ?l)) ''occi.core.id'' = Some ''i1''"
    by (simp add: link_of_def resource_of_def)
  have tgt: "map_of (attributes (target ?l)) ''occi.core.id'' = Some ''v1''"
    by (simp add: link_of_def resource_of_def)
  have reg: "registry extras_unregistered ''/compute/i1'' = Inl (KeyError ''/compute/i1'')"
    by (simp add: extras_unregistered_def)
  have fields: "raised ?r = None \<and> calls ?r = [GetResource ''/compute/i1'']
       \<and> entity_identifier (obj ?r) = ''/storage/link/i1_v1''"
    using link_create_unregistered [OF src tgt reg, of "platform_with_status ''available''"]
    by (simp add: platform_with_status_def)
  have rest: "attributes (obj ?r) =
        [(''occi.core.id'', ''i1_v1''), (''occi.storagelink.state'', ''active'')]
      \<and> source (obj ?r) = resource_of [(''occi.core.id'', ''i1'')] []
      \<and> target (obj ?r) = resource_of [(''occi.core.id'', ''v1'')] []"
    by (simp add: StorageLinkBackend_create_def link_of_def resource_of_def
          extras_unregistered_def returns_def set_attr_def Let_def)
  have "obj ?r = link_of [(''occi.core.id'', ''i1_v1''), (''occi.storagelink.state'', ''active'')]
              (resource_of [(''occi.core.id'', ''i1'')] [])
              (resource_of [(''occi.core.id'', ''v1'')] [])
              \<lparr>entity_identifier := ''/storage/link/i1_v1''\<rparr>"
    using fields rest by (cases "obj ?r") (simp add: link_of_def)
  then show ?thesis using src tgt reg fields by (cases ?r) simp
qed

text \<open>
  C9. When the registry lookup succeeds and the platform's attach call answers with a
  device name, link creation returns normally and \<^verbatim>\<open>occi.storagelink.deviceid\<close> is that
  device name, whatever the link's attributes held before; the device id that was asked
  for (or none) is only passed on to the platform.
\<close>

theorem link_create_deviceid:
  assumes "instance_id = (case map_of (attributes (source lnk)) ''occi.core.id'' of
                            None \<Rightarrow> '''' | Some v \<Rightarrow> v)"
    and "volume_id = (case map_of (attributes (target lnk)) ''occi.core.id'' of
                        None \<Rightarrow> '''' | Some v \<Rightarrow> v)"
    and "registry ex (''/compute/'' @ instance_id) = Inr u"
    and "attach_volume p instance_id volume_id
           (map_of (attributes lnk) ''occi.storagelink.deviceid'') (nova_ctx ex) =
         Inr device_name"
  shows "raised (StorageLinkBackend_create p lnk ex) = None
       \<and> map_of (attributes (obj (StorageLinkBackend_create p lnk ex)))
           ''occi.storagelink.deviceid'' = Some device_name
       \<and> calls (StorageLinkBackend_create p lnk ex) =
           [GetResource (''/compute/'' @ instance_id),
            AttachVolume instance_id volume_id
              (map_of (attributes lnk) ''occi.storagelink.deviceid'') (nova_ctx ex)]"
  using assms
  by (simp add: StorageLinkBackend_create_def Let_def returns_def map_of_set_attr)

theorem link_create_deviceid_witness:
  "registry extras_registered ''/compute/i1'' = Inr ()
   \<and> attach_volume (platform_with_status ''available'') ''i1'' ''v1'' (Some ''/dev/vdc'') ''ctx'' =
       Inr ''/dev/vdb''
   \<and> attach_volume (platform_with_status ''available'') ''i1'' ''v1'' None ''ctx'' =
       Inr ''/dev/vdb''
   \<and> map_of (attributes (obj (StorageLinkBackend_create (platform_with_status ''available'')
       (link_of [(''occi.storagelink.deviceid'', ''/dev/vdc'')]
          (resource_of [(''occi.core.id'', ''i1'')] [])
          (resource_of [(''occi.core.id'', ''v1'')] [])) extras_registered)))
       ''occi.storagelink.deviceid'' = Some ''/dev/vdb''
   \<and> map_of (attributes (obj (StorageLinkBackend_create (platform_with_status ''available'')
       (link_of [] (resource_of [(''occi.core.id'', ''i1'')] [])
          (resource_of [(''occi.core.id'', ''v1'')] [])) extras_registered)))
       ''occi.storagelink.deviceid'' = Some ''/dev/vdb''"
  using link_create_deviceid [of "''i1''"
          "link_of [(''occi.storagelink.deviceid'', ''/dev/vdc'')]
             (resource_of [(''occi.core.id'', ''i1'')] [])
             (resource_of [(''occi.core.id'', ''v1'')] [])"
          "''v1''" extras_registered "()" "platform_with_status ''available''" "''/dev/vdb''"]
        link_create_deviceid [of "''i1''"
          "link_of [] (resource_of [(''occi.core.id'', ''i1'')] [])
             (resource_of [(''occi.core.id'', ''v1'')] [])"
          "''v1''" extras_registered "()" "platform_with_status ''available''" "''/dev/vdb''"]
  by (simp add: link_of_def resource_of_def platform_with_status_def extras_registered_def)

end
